theory Spec2Isabelle
  imports Main "HOL-Library.AList" "HOL-Library.Sublist"
begin

section \<open>The LINE feedback bot: user cache, persistent store and event handlers\<close>

text \<open>
  The repository holds two near-duplicate Flask applications, \<^verbatim>\<open>line_bot3.py\<close>
  (LINE SDK v3) and \<^verbatim>\<open>line_bot7.py\<close> (legacy SDK). Both keep a process-wide
  dictionary \<^verbatim>\<open>user_cache\<close> in front of one SQLite table \<^verbatim>\<open>users\<close>, and both
  register a text-message handler and a postback handler.

  The embedding passes the mutable state explicitly. Text is modelled as HOL
  strings restricted to ASCII: characters above 127 are neither whitespace nor
  digits and have no case. The calls to the messaging platform and to the
  downstream endpoint are recorded in an outbox, in the order the code makes
  them, and are taken to return normally; \<^verbatim>\<open>print\<close> and \<^verbatim>\<open>logging\<close> calls
  are not modelled. The helper functions of the two files
  (\<^verbatim>\<open>load_cache_from_db\<close>, \<^verbatim>\<open>add_user\<close>, \<^verbatim>\<open>get_display_name\<close>,
  \<^verbatim>\<open>update_last_record_id\<close>, \<^verbatim>\<open>get_last_record_id\<close>,
  \<^verbatim>\<open>delete_all_users\<close>, \<^verbatim>\<open>send_to_powerapp\<close>) are textually identical and
  are modelled once. In \<^verbatim>\<open>line_bot3.py\<close> the function
  \<^verbatim>\<open>update_last_record_id\<close> is defined twice; the second definition
  (lines 90 to 103) replaces the first and is the one modelled.
\<close>

subsection \<open>Data model\<close>

text \<open>A value of \<^verbatim>\<open>user_cache\<close>: \<^verbatim>\<open>{"display_name": str, "last_record_id": int or None}\<close>.\<close>

record cache_entry =
  display_name :: string
  last_record_id :: "int option"

text \<open>
  A row of the table \<^verbatim>\<open>users (user_id TEXT PRIMARY KEY, display_name TEXT,
  last_record_id INTEGER)\<close>, as \<^verbatim>\<open>fetchall\<close> returns it: a tuple.
\<close>

type_synonym user_row = "string \<times> string \<times> int option"

text \<open>
  The calls that leave the process: \<^verbatim>\<open>send_to_powerapp(user_id, display_name,
  feedback, record_id, feedbacktxt, list_type)\<close> and
  \<^verbatim>\<open>line_bot_api.reply_message\<close> with a reply token and one text.
\<close>

datatype call =
  Forward string "string option" int "int option" string string
| Reply string string

text \<open>
  The state: the dictionary (a Python dictionary keeps insertion order, so an
  association list updated with \<^const>\<open>AList.update\<close>), the table, and the calls
  made so far.
\<close>

record world =
  user_cache :: "(string \<times> cache_entry) list"
  users :: "user_row list"
  outbox :: "call list"

text \<open>An inbound event: \<^verbatim>\<open>event.source.user_id\<close>, \<^verbatim>\<open>event.reply_token\<close>, and
  the message text or the postback data.\<close>

datatype event =
  MessageEvent string string string
| PostbackEvent string string string
| OtherEvent

subsection \<open>Strings: \<^verbatim>\<open>str.lower\<close>, \<^verbatim>\<open>in\<close>, \<^verbatim>\<open>int\<close>, \<^verbatim>\<open>str\<close>\<close>

definition lower_char :: "char \<Rightarrow> char" where
  "lower_char c =
     (let n = (of_char c :: nat) in if 65 \<le> n \<and> n \<le> 90 then char_of (n + 32) else c)"

definition lower :: "string \<Rightarrow> string" where
  "lower s = map lower_char s"

text \<open>\<^verbatim>\<open>p in s\<close> on strings: \<open>p\<close> occurs in \<open>s\<close> as a contiguous substring.\<close>

fun contains :: "string \<Rightarrow> string \<Rightarrow> bool" where
  "contains p [] = (p = [])"
| "contains p (c # s) = (prefix p (c # s) \<or> contains p s)"

declare contains.simps [simp del]

definition digit_val :: "char \<Rightarrow> nat" where
  "digit_val c = (of_char c :: nat) - 48"

text \<open>\<^verbatim>\<open>int(s)\<close> on a string of decimal digits (the only strings the handlers
  convert are the \<^verbatim>\<open>\d+\<close> groups of a match).\<close>

definition int_of_digits :: "string \<Rightarrow> int" where
  "int_of_digits s = int (foldl (\<lambda>a c. 10 * a + digit_val c) 0 s)"

fun str_nat :: "nat \<Rightarrow> string" where
  "str_nat n =
     (if n < 10 then [char_of (48 + n)] else str_nat (n div 10) @ [char_of (48 + n mod 10)])"

declare str_nat.simps [simp del]

text \<open>\<^verbatim>\<open>str(i)\<close>, as the f-string \<^verbatim>\<open>f"{feedback}"\<close> formats an integer.\<close>

definition str_int :: "int \<Rightarrow> string" where
  "str_int i = (if i < 0 then CHR ''-'' # str_nat (nat (- i)) else str_nat (nat i))"

subsection \<open>The regular expressions of the handlers\<close>

text \<open>
  \<^verbatim>\<open>re.search\<close> is a backtracking matcher: it tries the start positions from
  left to right, the alternatives of \<^verbatim>\<open>|\<close> in the order written, and the greedy
  repetitions \<^verbatim>\<open>+\<close> and \<^verbatim>\<open>*\<close> from the longest run down. The two patterns of the
  source use literals, an alternation of literals, the classes \<^verbatim>\<open>\s\<close>, \<^verbatim>\<open>\d\<close> and
  \<^verbatim>\<open>.\<close>, repetitions of a class, and capturing groups around one such piece.
\<close>

datatype cls = Space | Digit | AnyChar

fun in_cls :: "cls \<Rightarrow> char \<Rightarrow> bool" where
  "in_cls Space c =
     (let n = (of_char c :: nat) in (9 \<le> n \<and> n \<le> 13) \<or> (28 \<le> n \<and> n \<le> 32))"
| "in_cls Digit c = (let n = (of_char c :: nat) in 48 \<le> n \<and> n \<le> 57)"
| "in_cls AnyChar c = (c \<noteq> CHR 0x0A)"

datatype atom = Lit string | Alt "string list" | One cls | Plus cls | Star cls

text \<open>A pattern is a sequence of pieces; the flag says whether the piece is a
  capturing group.\<close>

type_synonym pattern = "(bool \<times> atom) list"

text \<open>The lengths a piece may consume at the head of a string, in the order the
  matcher tries them.\<close>

fun choices :: "atom \<Rightarrow> string \<Rightarrow> nat list" where
  "choices (Lit l) s = (if prefix l s then [length l] else [])"
| "choices (Alt ls) s = map length (filter (\<lambda>l. prefix l s) ls)"
| "choices (One c) s = (case s of [] \<Rightarrow> [] | x # _ \<Rightarrow> if in_cls c x then [1] else [])"
| "choices (Plus c) s = rev [1 ..< Suc (length (takeWhile (in_cls c) s))]"
| "choices (Star c) s = rev [0 ..< Suc (length (takeWhile (in_cls c) s))]"

fun first_some :: "('a \<Rightarrow> 'b option) \<Rightarrow> 'a list \<Rightarrow> 'b option" where
  "first_some f [] = None"
| "first_some f (x # xs) = (case f x of Some y \<Rightarrow> Some y | None \<Rightarrow> first_some f xs)"

text \<open>Match the pattern at the head of the string; the result is the list of
  captured groups, group 1 first.\<close>

fun match_here :: "pattern \<Rightarrow> string \<Rightarrow> string list option" where
  "match_here [] s = Some []"
| "match_here ((g, a) # p) s =
     first_some
       (\<lambda>n. case match_here p (drop n s) of
               None \<Rightarrow> None
             | Some gs \<Rightarrow> Some (if g then take n s # gs else gs))
       (choices a s)"

fun re_search :: "pattern \<Rightarrow> string \<Rightarrow> string list option" where
  "re_search p [] = match_here p []"
| "re_search p (c # s) =
     (case match_here p (c # s) of Some gs \<Rightarrow> Some gs | None \<Rightarrow> re_search p s)"

declare re_search.simps [simp del]

text \<open>\<^verbatim>\<open>r':\s*(.+)'\<close>, the pattern of the text-message handler.\<close>

definition feedback_text_pattern :: pattern where
  "feedback_text_pattern = [(False, Lit '':''), (False, Star Space), (True, Plus AnyChar)]"

text \<open>\<^verbatim>\<open>r'(feedback|action feedback):\s(\d+)\s+\( id :\s(\d+)'\<close>, the pattern of the
  postback handler.\<close>

definition postback_pattern :: pattern where
  "postback_pattern =
     [(True, Alt [''feedback'', ''action feedback'']), (False, Lit '':''),
      (False, One Space), (True, Plus Digit), (False, Plus Space),
      (False, Lit ''( id :''), (False, One Space), (True, Plus Digit)]"

text \<open>\<^verbatim>\<open>match.group(n)\<close> for a group that the pattern has.\<close>

definition match_group :: "string list \<Rightarrow> nat \<Rightarrow> string" where
  "match_group gs n = gs ! (n - 1)"

subsection \<open>The table \<^verbatim>\<open>users\<close>\<close>

text \<open>\<^verbatim>\<open>INSERT OR IGNORE INTO users (user_id, display_name) VALUES (?, ?)\<close>: the
  primary key decides; the column \<^verbatim>\<open>last_record_id\<close> of a new row is NULL.\<close>

definition insert_or_ignore :: "string \<Rightarrow> string \<Rightarrow> user_row list \<Rightarrow> user_row list" where
  "insert_or_ignore uid dn rows =
     (if uid \<in> set (map fst rows) then rows else rows @ [(uid, dn, None)])"

text \<open>\<^verbatim>\<open>UPDATE users SET last_record_id = ? WHERE user_id = ?\<close>.\<close>

definition set_last_record_id :: "int \<Rightarrow> string \<Rightarrow> user_row list \<Rightarrow> user_row list" where
  "set_last_record_id rid uid rows =
     map (\<lambda>(u, dn, lr). if u = uid then (u, dn, Some rid) else (u, dn, lr)) rows"

subsection \<open>Cache and store helpers (identical in both files)\<close>

text \<open>\<^verbatim>\<open>user_cache = {r[0]: {"display_name": r[1], "last_record_id": r[2]} for r in rows}\<close>\<close>

definition load_cache_from_db :: "world \<Rightarrow> world" where
  "load_cache_from_db w =
     w\<lparr>user_cache :=
         fold (\<lambda>(uid, dn, lr). AList.update uid \<lparr>display_name = dn, last_record_id = lr\<rparr>)
           (users w) []\<rparr>"

definition add_user :: "string \<Rightarrow> string \<Rightarrow> world \<Rightarrow> world" where
  "add_user uid dn w =
     w\<lparr>user_cache :=
         AList.update uid \<lparr>display_name = dn, last_record_id = None\<rparr> (user_cache w),
       users := insert_or_ignore uid dn (users w)\<rparr>"

text \<open>\<^verbatim>\<open>user_cache.get(user_id, {}).get("display_name")\<close>\<close>

definition get_display_name :: "world \<Rightarrow> string \<Rightarrow> string option" where
  "get_display_name w uid =
     (case map_of (user_cache w) uid of None \<Rightarrow> None | Some e \<Rightarrow> Some (display_name e))"

definition update_last_record_id :: "string \<Rightarrow> int \<Rightarrow> world \<Rightarrow> world" where
  "update_last_record_id uid rid w =
     w\<lparr>user_cache :=
         (if uid \<in> set (map fst (user_cache w))
          then AList.map_entry uid (\<lambda>e. e\<lparr>last_record_id := Some rid\<rparr>) (user_cache w)
          else user_cache w),
       users := set_last_record_id rid uid (users w)\<rparr>"

text \<open>\<^verbatim>\<open>user_cache.get(user_id, {}).get("last_record_id")\<close>\<close>

definition get_last_record_id :: "world \<Rightarrow> string \<Rightarrow> int option" where
  "get_last_record_id w uid =
     (case map_of (user_cache w) uid of None \<Rightarrow> None | Some e \<Rightarrow> last_record_id e)"

text \<open>The administrative route \<^verbatim>\<open>/delete_all_users\<close>: \<^verbatim>\<open>DELETE FROM users\<close>; the
  dictionary is not touched.\<close>

definition delete_all_users :: "world \<Rightarrow> world" where
  "delete_all_users w = w\<lparr>users := []\<rparr>"

definition send_to_powerapp ::
  "string \<Rightarrow> string option \<Rightarrow> int \<Rightarrow> int option \<Rightarrow> string \<Rightarrow> string \<Rightarrow> world \<Rightarrow> world" where
  "send_to_powerapp uid dn feedback record_id feedbacktxt list_type w =
     w\<lparr>outbox := outbox w @ [Forward uid dn feedback record_id feedbacktxt list_type]\<rparr>"

definition reply_message :: "string \<Rightarrow> string \<Rightarrow> world \<Rightarrow> world" where
  "reply_message reply_token txt w = w\<lparr>outbox := outbox w @ [Reply reply_token txt]\<rparr>"

text \<open>The state after the module has been imported: \<^verbatim>\<open>init_db()\<close> creates the
  table if it is missing and \<^verbatim>\<open>load_cache_from_db()\<close> fills the dictionary from
  the rows the table already holds.\<close>

definition startup :: "user_row list \<Rightarrow> world" where
  "startup rows = load_cache_from_db \<lparr>user_cache = [], users = rows, outbox = []\<rparr>"

subsection \<open>The handlers of \<^verbatim>\<open>line_bot3.py\<close>\<close>

text \<open>
  In the handlers \<open>get_profile\<close> stands for \<^verbatim>\<open>line_bot_api.get_profile(user_id).display_name\<close>,
  the display name the platform returns for a user id.

  The branch \<^verbatim>\<open>if not display_name\<close> of \<^verbatim>\<open>handle_message\<close>: the new-user bootstrap.
\<close>

definition new_user :: "(string \<Rightarrow> string) \<Rightarrow> string \<Rightarrow> world \<Rightarrow> world" where
  "new_user get_profile uid w =
     (let profile_display_name = get_profile uid;
          w1 = add_user uid profile_display_name w
      in send_to_powerapp uid (Some profile_display_name) 0 (Some 0) [] [] w1)"

text \<open>The loop \<^verbatim>\<open>for prefix in ['Service Feedback :', 'Action Feedback :']\<close> of
  \<^verbatim>\<open>line_bot3.handle_message\<close>: the first prefix found in the message ends the
  handler, with or without a match of the pattern.\<close>

fun feedback_loop3 ::
  "string list \<Rightarrow> string \<Rightarrow> string \<Rightarrow> string \<Rightarrow> string \<Rightarrow> world \<Rightarrow> world" where
  "feedback_loop3 [] uid reply_token dn msg w = w"
| "feedback_loop3 (pre # rest) uid reply_token dn msg w =
     (if contains pre msg then
        (let list_type = (if contains ''Service'' pre then ''service'' else ''action'');
             match = re_search feedback_text_pattern msg;
             record_id = get_last_record_id w uid
         in case match of
              None \<Rightarrow> w
            | Some gs \<Rightarrow>
                reply_message reply_token ''Thanks for your feedback!''
                  (send_to_powerapp uid (Some dn) 0 record_id (match_group gs 1) list_type w))
      else feedback_loop3 rest uid reply_token dn msg w)"

definition handle_message3 ::
  "(string \<Rightarrow> string) \<Rightarrow> string \<Rightarrow> string \<Rightarrow> string \<Rightarrow> world \<Rightarrow> world" where
  "handle_message3 get_profile uid reply_token msg w =
     (let w1 = (if user_cache w = [] then load_cache_from_db w else w)
      in case get_display_name w1 uid of
           None \<Rightarrow> new_user get_profile uid w1
         | Some dn \<Rightarrow>
             if dn = [] then new_user get_profile uid w1
             else if lower msg = ''hello''
               then reply_message reply_token (''Hello '' @ dn @ ''!'') w1
             else feedback_loop3 [''Service Feedback :'', ''Action Feedback :'']
                    uid reply_token dn msg w1)"

definition handle_postback3 :: "string \<Rightarrow> string \<Rightarrow> string \<Rightarrow> world \<Rightarrow> world" where
  "handle_postback3 uid reply_token postback_data w =
     (let dn = get_display_name w uid;
          data = lower postback_data;
          list_type = (if contains ''service feedback:'' data then ''service'' else ''action'')
      in case re_search postback_pattern data of
           None \<Rightarrow> w
         | Some gs \<Rightarrow>
             (let feedback = int_of_digits (match_group gs 2);
                  record_id = int_of_digits (match_group gs 3);
                  w1 = send_to_powerapp uid dn feedback (Some record_id) ''-'' list_type w;
                  w2 = reply_message reply_token
                         (''Thanks for your feedback: '' @ str_int feedback @ ''/5!'') w1
              in update_last_record_id uid record_id w2))"

subsection \<open>The handlers of \<^verbatim>\<open>line_bot7.py\<close>\<close>

text \<open>The same loop in \<^verbatim>\<open>line_bot7.handle_message\<close>: the reply is sent before the
  forward call.\<close>

fun feedback_loop7 ::
  "string list \<Rightarrow> string \<Rightarrow> string \<Rightarrow> string \<Rightarrow> string \<Rightarrow> world \<Rightarrow> world" where
  "feedback_loop7 [] uid reply_token dn msg w = w"
| "feedback_loop7 (pre # rest) uid reply_token dn msg w =
     (if contains pre msg then
        (let list_type = (if contains ''Service'' pre then ''service'' else ''action'');
             match = re_search feedback_text_pattern msg;
             record_id = get_last_record_id w uid
         in case match of
              None \<Rightarrow> w
            | Some gs \<Rightarrow>
                send_to_powerapp uid (Some dn) 0 record_id (match_group gs 1) list_type
                  (reply_message reply_token ''Thanks for your feedback!'' w))
      else feedback_loop7 rest uid reply_token dn msg w)"

definition handle_message7 ::
  "(string \<Rightarrow> string) \<Rightarrow> string \<Rightarrow> string \<Rightarrow> string \<Rightarrow> world \<Rightarrow> world" where
  "handle_message7 get_profile uid reply_token msg w =
     (let w1 = (if user_cache w = [] then load_cache_from_db w else w)
      in case get_display_name w1 uid of
           None \<Rightarrow> new_user get_profile uid w1
         | Some dn \<Rightarrow>
             if dn = [] then new_user get_profile uid w1
             else if lower msg = ''hello''
               then reply_message reply_token (''Hello '' @ dn @ ''!'') w1
             else feedback_loop7 [''Service Feedback :'', ''Action Feedback :'']
                    uid reply_token dn msg w1)"

text \<open>\<^verbatim>\<open>line_bot7.handle_postback\<close> replies, then updates the last record id, then
  forwards.\<close>

definition handle_postback7 :: "string \<Rightarrow> string \<Rightarrow> string \<Rightarrow> world \<Rightarrow> world" where
  "handle_postback7 uid reply_token postback_data w =
     (let dn = get_display_name w uid;
          data = lower postback_data;
          list_type = (if contains ''service feedback:'' data then ''service'' else ''action'')
      in case re_search postback_pattern data of
           None \<Rightarrow> w
         | Some gs \<Rightarrow>
             (let feedback = int_of_digits (match_group gs 2);
                  record_id = int_of_digits (match_group gs 3);
                  w1 = reply_message reply_token
                         (''Thanks for your feedback: '' @ str_int feedback @ ''/5!'') w;
                  w2 = update_last_record_id uid record_id w1
              in send_to_powerapp uid dn feedback (Some record_id) ''-'' list_type w2))"

subsection \<open>The webhook route\<close>

text \<open>
  \<^verbatim>\<open>handler.handle(body, signature)\<close> belongs to the LINE SDK. Its contract, as
  section 4.5 of the specification states it: the signature is verified first
  and a failure raises \<^verbatim>\<open>InvalidSignatureError\<close> before any handler runs;
  otherwise each event of the batch goes to the handler registered for its
  kind, in order, and events of other kinds are ignored. A request is modelled
  by the outcome of the verification and the parsed batch; a request that lacks
  the \<^verbatim>\<open>X-Line-Signature\<close> header is not modelled.
\<close>

record request =
  signature_valid :: bool
  events :: "event list"

datatype exn = InvalidSignatureError

text \<open>What the view function does: it returns a body, aborts with a status
  code, or lets an exception escape.\<close>

datatype response = Returned string | Aborted nat | Raised exn

fun dispatch3 :: "(string \<Rightarrow> string) \<Rightarrow> event \<Rightarrow> world \<Rightarrow> world" where
  "dispatch3 get_profile (MessageEvent uid reply_token msg) w =
     handle_message3 get_profile uid reply_token msg w"
| "dispatch3 get_profile (PostbackEvent uid reply_token postback_data) w =
     handle_postback3 uid reply_token postback_data w"
| "dispatch3 get_profile OtherEvent w = w"

fun dispatch7 :: "(string \<Rightarrow> string) \<Rightarrow> event \<Rightarrow> world \<Rightarrow> world" where
  "dispatch7 get_profile (MessageEvent uid reply_token msg) w =
     handle_message7 get_profile uid reply_token msg w"
| "dispatch7 get_profile (PostbackEvent uid reply_token postback_data) w =
     handle_postback7 uid reply_token postback_data w"
| "dispatch7 get_profile OtherEvent w = w"

definition handle ::
  "(event \<Rightarrow> world \<Rightarrow> world) \<Rightarrow> request \<Rightarrow> world \<Rightarrow> exn + world" where
  "handle dispatch req w =
     (if signature_valid req then Inr (fold dispatch (events req) w)
      else Inl InvalidSignatureError)"

text \<open>\<^verbatim>\<open>line_bot3.webhook\<close> calls \<^verbatim>\<open>handler.handle\<close> with no \<^verbatim>\<open>try\<close> around it.\<close>

definition webhook3 :: "(string \<Rightarrow> string) \<Rightarrow> request \<Rightarrow> world \<Rightarrow> response \<times> world" where
  "webhook3 get_profile req w =
     (case handle (dispatch3 get_profile) req w of
        Inl e \<Rightarrow> (Raised e, w)
      | Inr w' \<Rightarrow> (Returned ''OK'', w'))"

text \<open>\<^verbatim>\<open>line_bot7.webhook\<close> catches \<^verbatim>\<open>InvalidSignatureError\<close> and calls \<^verbatim>\<open>abort(400)\<close>.\<close>

definition webhook7 :: "(string \<Rightarrow> string) \<Rightarrow> request \<Rightarrow> world \<Rightarrow> response \<times> world" where
  "webhook7 get_profile req w =
     (case handle (dispatch7 get_profile) req w of
        Inl InvalidSignatureError \<Rightarrow> (Aborted 400, w)
      | Inr w' \<Rightarrow> (Returned ''OK'', w'))"

subsection \<open>Projections of the outbox and state predicates\<close>

fun is_forward :: "call \<Rightarrow> bool" where
  "is_forward (Forward _ _ _ _ _ _) = True"
| "is_forward (Reply _ _) = False"

definition forwards :: "world \<Rightarrow> call list" where
  "forwards w = filter is_forward (outbox w)"

definition replies :: "world \<Rightarrow> call list" where
  "replies w = filter (\<lambda>c. \<not> is_forward c) (outbox w)"

text \<open>The rows of the table with a given user id.\<close>

definition rows_of :: "string \<Rightarrow> world \<Rightarrow> user_row list" where
  "rows_of uid w = filter (\<lambda>r. fst r = uid) (users w)"

text \<open>The steady state of the data model: every user id of the table is a key
  of the dictionary.\<close>

definition cache_covers_store :: "world \<Rightarrow> bool" where
  "cache_covers_store w = (set (map fst (users w)) \<subseteq> set (map fst (user_cache w)))"

text \<open>Two states agree on what the claims compare between the two files: the
  dictionary, the table, the forward calls in order and the replies in order.\<close>

definition same_behaviour :: "world \<Rightarrow> world \<Rightarrow> bool" where
  "same_behaviour a b =
     (user_cache a = user_cache b \<and> users a = users b \<and>
      forwards a = forwards b \<and> replies a = replies b)"

section \<open>Properties\<close>

subsection \<open>Reloading the dictionary from the table\<close>

lemma fold_update_keys:
  "fst ` set (fold (\<lambda>(uid, dn, lr). AList.update uid (f uid dn lr)) rows acc) =
     fst ` set acc \<union> fst ` set rows"
proof (induction rows arbitrary: acc)
  case Nil
  show ?case by simp
next
  case (Cons r rows)
  obtain uid dn lr where r: "r = (uid, dn, lr)" by (cases r)
  show ?case by (simp add: r Cons.IH dom_update)
qed

lemma load_cache_keys:
  "set (map fst (user_cache (load_cache_from_db w))) = set (map fst (users w))"
  unfolding load_cache_from_db_def
  using fold_update_keys
    [of "\<lambda>uid dn lr. \<lparr>display_name = dn, last_record_id = lr\<rparr>" "users w" "[]"]
  by simp

lemma fold_update_lookup:
  "map_of (fold (\<lambda>(uid, dn, lr). AList.update uid (f dn lr)) rows acc) k =
     (case map_of (rev rows) k of Some (dn, lr) \<Rightarrow> Some (f dn lr) | None \<Rightarrow> map_of acc k)"
  by (induction rows arbitrary: acc) (auto simp: update_conv' split: option.splits)

text \<open>With the primary key respected, the reloaded dictionary maps each user id
  of the table to the columns of its row.\<close>

lemma load_cache_lookup:
  assumes "distinct (map fst (users w))" and "(uid, dn, lr) \<in> set (users w)"
  shows "map_of (user_cache (load_cache_from_db w)) uid =
           Some \<lparr>display_name = dn, last_record_id = lr\<rparr>"
proof -
  have "distinct (map fst (rev (users w)))"
    using assms(1) by (simp add: rev_map [symmetric])
  moreover have "(uid, dn, lr) \<in> set (rev (users w))"
    using assms(2) by simp
  ultimately have "map_of (rev (users w)) uid = Some (dn, lr)"
    by (rule map_of_is_SomeI)
  then show ?thesis
    unfolding load_cache_from_db_def
    using fold_update_lookup
      [of "\<lambda>dn lr. \<lparr>display_name = dn, last_record_id = lr\<rparr>" "users w" "[]" uid]
    by simp
qed

lemma load_cache_miss:
  "uid \<notin> set (map fst (users w)) \<Longrightarrow> map_of (user_cache (load_cache_from_db w)) uid = None"
  using load_cache_keys [of w] by (metis map_of_eq_None_iff set_map)

lemma filter_absent_key:
  "uid \<notin> set (map fst rows) \<Longrightarrow> filter (\<lambda>r. fst r = uid) rows = []"
  by (induction rows) auto

lemma known_cache_nonempty: "map_of (user_cache w) uid = Some e \<Longrightarrow> user_cache w \<noteq> []"
  by auto

lemma absent_key_lookup: "uid \<notin> set (map fst al) \<Longrightarrow> map_of al uid = None"
  by (simp add: map_of_eq_None_iff)

lemma miss_after_reload:
  assumes "uid \<notin> set (map fst (user_cache w))" and "uid \<notin> set (map fst (users w))"
  shows "get_display_name (if user_cache w = [] then load_cache_from_db w else w) uid = None"
  using assms by (simp add: get_display_name_def load_cache_miss absent_key_lookup)

lemma load_cache_from_db_frame:
  "users (load_cache_from_db w) = users w \<and> outbox (load_cache_from_db w) = outbox w"
  by (simp add: load_cache_from_db_def)

text \<open>What the two readers return once the dictionary has been reloaded.\<close>

lemma reads_after_reload:
  assumes "distinct (map fst (users w))" and "(uid, dn, lr) \<in> set (users w)"
  shows "get_display_name (load_cache_from_db w) uid = Some dn \<and>
         get_last_record_id (load_cache_from_db w) uid = lr"
  using load_cache_lookup [OF assms]
  by (simp add: get_display_name_def get_last_record_id_def)

lemma update_last_record_id_known:
  assumes "map_of (user_cache w) uid = Some e"
  shows "get_last_record_id (update_last_record_id uid rid w) uid = Some rid"
proof -
  have "uid \<in> set (map fst (user_cache w))"
    using assms by (metis absent_key_lookup option.distinct(1))
  then show ?thesis
    using assms by (simp add: update_last_record_id_def get_last_record_id_def map_of_map_entry)
qed

subsection \<open>The example payload, evaluated\<close>

lemma payload_lower:
  "lower ''Service Feedback: 4  ( id : 123'' = ''service feedback: 4  ( id : 123''"
  by code_simp

lemma payload_match:
  "re_search postback_pattern ''service feedback: 4  ( id : 123'' =
     Some [''feedback'', ''4'', ''123'']"
  by code_simp

lemma payload_service: "contains ''service feedback:'' ''service feedback: 4  ( id : 123''"
  by code_simp

lemma payload_numbers:
  "int_of_digits ''4'' = 4" "int_of_digits ''123'' = 123" "str_int 4 = ''4''"
  by code_simp+

subsection \<open>The steady state and the write-through update\<close>

lemma set_last_record_id_keys: "map fst (set_last_record_id rid uid rows) = map fst rows"
  by (simp add: set_last_record_id_def split_beta)


lemma update_last_record_id_keys:
  "set (map fst (user_cache (update_last_record_id uid rid w))) = set (map fst (user_cache w))"
  by (simp add: update_last_record_id_def dom_map_entry)

lemma update_last_record_id_covers:
  "cache_covers_store w \<Longrightarrow> cache_covers_store (update_last_record_id uid rid w)"
  unfolding cache_covers_store_def update_last_record_id_keys
  by (simp add: update_last_record_id_def set_last_record_id_keys del: set_map)

lemma load_cache_covers: "cache_covers_store (load_cache_from_db w)"
  unfolding cache_covers_store_def load_cache_keys
  by (simp add: load_cache_from_db_def)

lemma startup_covers: "cache_covers_store (startup rows)"
  unfolding startup_def by (rule load_cache_covers)

lemma add_user_covers: "cache_covers_store w \<Longrightarrow> cache_covers_store (add_user uid dn w)"
  by (auto simp: cache_covers_store_def add_user_def insert_or_ignore_def dom_update)

lemma delete_all_users_covers: "cache_covers_store (delete_all_users w)"
  by (simp add: cache_covers_store_def delete_all_users_def)

lemma outbox_covers [simp]:
  "cache_covers_store (send_to_powerapp uid dn f r t l w) = cache_covers_store w"
  "cache_covers_store (reply_message tok txt w) = cache_covers_store w"
  by (simp_all add: cache_covers_store_def send_to_powerapp_def reply_message_def)

lemma feedback_loop3_covers:
  "cache_covers_store w \<Longrightarrow> cache_covers_store (feedback_loop3 ps uid tok dn msg w)"
  by (induction ps) (auto simp: Let_def split: option.splits)

lemma feedback_loop7_covers:
  "cache_covers_store w \<Longrightarrow> cache_covers_store (feedback_loop7 ps uid tok dn msg w)"
  by (induction ps) (auto simp: Let_def split: option.splits)

lemma new_user_covers: "cache_covers_store w \<Longrightarrow> cache_covers_store (new_user gp uid w)"
  by (simp add: new_user_def Let_def add_user_covers)

lemma handle_message3_covers:
  "cache_covers_store w \<Longrightarrow> cache_covers_store (handle_message3 gp uid tok msg w)"
  unfolding handle_message3_def Let_def
  by (auto simp: new_user_covers load_cache_covers feedback_loop3_covers
      simp del: feedback_loop3.simps split: option.splits)

lemma handle_message7_covers:
  "cache_covers_store w \<Longrightarrow> cache_covers_store (handle_message7 gp uid tok msg w)"
  unfolding handle_message7_def Let_def
  by (auto simp: new_user_covers load_cache_covers feedback_loop7_covers
      simp del: feedback_loop7.simps split: option.splits)

lemma handle_postback3_covers:
  "cache_covers_store w \<Longrightarrow> cache_covers_store (handle_postback3 uid tok d w)"
  unfolding handle_postback3_def Let_def
  by (auto simp: update_last_record_id_covers split: option.splits)

lemma handle_postback7_covers:
  "cache_covers_store w \<Longrightarrow> cache_covers_store (handle_postback7 uid tok d w)"
  unfolding handle_postback7_def Let_def
  by (auto simp: update_last_record_id_covers split: option.splits)

lemma dispatch_covers:
  "cache_covers_store w \<Longrightarrow> cache_covers_store (dispatch3 gp ev w)"
  "cache_covers_store w \<Longrightarrow> cache_covers_store (dispatch7 gp ev w)"
  by (cases ev; simp add: handle_message3_covers handle_message7_covers
      handle_postback3_covers handle_postback7_covers)+

lemma batch_covers:
  "cache_covers_store w \<Longrightarrow> cache_covers_store (fold (dispatch3 gp) evs w)"
  "cache_covers_store w \<Longrightarrow> cache_covers_store (fold (dispatch7 gp) evs w)"
  by (induction evs arbitrary: w) (simp_all add: dispatch_covers)

lemma webhook_covers:
  "cache_covers_store w \<Longrightarrow> cache_covers_store (snd (webhook3 gp req w))"
  "cache_covers_store w \<Longrightarrow> cache_covers_store (snd (webhook7 gp req w))"
  by (simp_all add: webhook3_def webhook7_def handle_def batch_covers)



subsection \<open>Reading after a reset of the dictionary\<close>

lemma handle_message3_reloads:
  "user_cache w = [] \<Longrightarrow>
     handle_message3 gp uid tok msg w = handle_message3 gp uid tok msg (load_cache_from_db w)"
  by (simp add: handle_message3_def load_cache_from_db_def)

lemma handle_message7_reloads:
  "user_cache w = [] \<Longrightarrow>
     handle_message7 gp uid tok msg w = handle_message7 gp uid tok msg (load_cache_from_db w)"
  by (simp add: handle_message7_def load_cache_from_db_def)

text \<open>
  Claim C2. The text-message handler reloads an empty dictionary from the table
  before it reads (the two lemmas above, with \<open>reads_after_reload\<close> for what the
  readers then return). The postback handler of either file does not: with
  an empty dictionary and the user \<^verbatim>\<open>U1\<close> stored under the name \<^verbatim>\<open>Al\<close>, a
  matching postback from \<^verbatim>\<open>U1\<close> is forwarded with no display name, the
  dictionary stays empty, and only the table row receives the record id.
\<close>

theorem postback_reads_without_reload:
  "handle_postback3 ''U1'' ''tok'' ''Service Feedback: 4  ( id : 123''
     \<lparr>user_cache = [], users = [(''U1'', ''Al'', Some 7)], outbox = []\<rparr> =
   \<lparr>user_cache = [], users = [(''U1'', ''Al'', Some 123)],
    outbox = [Forward ''U1'' None 4 (Some 123) ''-'' ''service'',
              Reply ''tok'' ''Thanks for your feedback: 4/5!'']\<rparr> \<and>
   handle_postback7 ''U1'' ''tok'' ''Service Feedback: 4  ( id : 123''
     \<lparr>user_cache = [], users = [(''U1'', ''Al'', Some 7)], outbox = []\<rparr> =
   \<lparr>user_cache = [], users = [(''U1'', ''Al'', Some 123)],
    outbox = [Reply ''tok'' ''Thanks for your feedback: 4/5!'',
              Forward ''U1'' None 4 (Some 123) ''-'' ''service'']\<rparr>"
  by (simp add: handle_postback3_def handle_postback7_def payload_lower payload_match
      payload_service payload_numbers match_group_def get_display_name_def
      send_to_powerapp_def reply_message_def update_last_record_id_def
      set_last_record_id_def Let_def)

subsection \<open>A postback from a user the dictionary does not hold\<close>

text \<open>
  Claim C3, as amended. For a postback whose user id is not a key of the
  dictionary, no user is created: both files' handlers leave the dictionary as it
  is and the table keeps exactly its user ids. The event is processed all the
  same: when the payload matches, \<^verbatim>\<open>line_bot3\<close> forwards it with no display
  name, sends the thanks reply, and issues the table update for that user id;
  when it does not match, nothing happens.
\<close>

theorem unknown_postback_creates_no_user:
  assumes "uid \<notin> set (map fst (user_cache w))"
  shows "user_cache (handle_postback3 uid reply_token postback_data w) = user_cache w \<and>
         map fst (users (handle_postback3 uid reply_token postback_data w)) = map fst (users w) \<and>
         user_cache (handle_postback7 uid reply_token postback_data w) = user_cache w \<and>
         map fst (users (handle_postback7 uid reply_token postback_data w)) = map fst (users w) \<and>
         handle_postback3 uid reply_token postback_data w =
           (case re_search postback_pattern (lower postback_data) of
              None \<Rightarrow> w
            | Some gs \<Rightarrow>
                w\<lparr>users := set_last_record_id (int_of_digits (match_group gs 3)) uid (users w),
                  outbox := outbox w @
                    [Forward uid None (int_of_digits (match_group gs 2))
                       (Some (int_of_digits (match_group gs 3))) ''-''
                       (if contains ''service feedback:'' (lower postback_data)
                        then ''service'' else ''action''),
                     Reply reply_token
                       (''Thanks for your feedback: '' @
                        str_int (int_of_digits (match_group gs 2)) @ ''/5!'')]\<rparr>)"
proof -
  have dn: "get_display_name w uid = None"
    using assms by (simp add: get_display_name_def absent_key_lookup)
  have h3: "handle_postback3 uid reply_token postback_data w =
      (case re_search postback_pattern (lower postback_data) of
         None \<Rightarrow> w
       | Some gs \<Rightarrow>
           w\<lparr>users := set_last_record_id (int_of_digits (match_group gs 3)) uid (users w),
             outbox := outbox w @
               [Forward uid None (int_of_digits (match_group gs 2))
                  (Some (int_of_digits (match_group gs 3))) ''-''
                  (if contains ''service feedback:'' (lower postback_data)
                   then ''service'' else ''action''),
                Reply reply_token
                  (''Thanks for your feedback: '' @
                   str_int (int_of_digits (match_group gs 2)) @ ''/5!'')]\<rparr>)"
    using assms dn
    by (simp add: handle_postback3_def Let_def send_to_powerapp_def reply_message_def
        update_last_record_id_def split: option.splits)
  have c3: "user_cache (handle_postback3 uid reply_token postback_data w) = user_cache w"
    and u3: "map fst (users (handle_postback3 uid reply_token postback_data w)) = map fst (users w)"
    by (simp_all add: h3 set_last_record_id_keys split: option.splits)
  have c7: "user_cache (handle_postback7 uid reply_token postback_data w) = user_cache w"
    and u7: "map fst (users (handle_postback7 uid reply_token postback_data w)) = map fst (users w)"
    using assms
    by (simp_all add: handle_postback7_def Let_def send_to_powerapp_def reply_message_def
        update_last_record_id_def set_last_record_id_keys split: option.splits)
  show ?thesis using c3 u3 c7 u7 h3 by simp
qed

theorem unknown_postback_creates_no_user_witness:
  "''U1'' \<notin> set (map fst [(''U2'', \<lparr>display_name = ''Bo'', last_record_id = None\<rparr>)]) \<and>
   user_cache (handle_postback3 ''U1'' ''tok'' ''Service Feedback: 4  ( id : 123''
     \<lparr>user_cache = [(''U2'', \<lparr>display_name = ''Bo'', last_record_id = None\<rparr>)],
      users = [(''U2'', ''Bo'', None), (''U1'', ''Al'', None)], outbox = []\<rparr>) =
     [(''U2'', \<lparr>display_name = ''Bo'', last_record_id = None\<rparr>)] \<and>
   map fst (users (handle_postback3 ''U1'' ''tok'' ''Service Feedback: 4  ( id : 123''
     \<lparr>user_cache = [(''U2'', \<lparr>display_name = ''Bo'', last_record_id = None\<rparr>)],
      users = [(''U2'', ''Bo'', None), (''U1'', ''Al'', None)], outbox = []\<rparr>)) =
     [''U2'', ''U1'']"
  using unknown_postback_creates_no_user [of "''U1''"
      "\<lparr>user_cache = [(''U2'', \<lparr>display_name = ''Bo'', last_record_id = None\<rparr>)],
        users = [(''U2'', ''Bo'', None), (''U1'', ''Al'', None)], outbox = []\<rparr>"
      "''tok''" "''Service Feedback: 4  ( id : 123''"]
  by (simp add: payload_lower payload_match payload_service payload_numbers match_group_def
      set_last_record_id_def)

text \<open>
  Claim C3 as stated says that such an event is dropped. It is not: for the user
  \<^verbatim>\<open>U1\<close>, absent from the dictionary and from the table, the matching postback is
  forwarded and answered.
\<close>

theorem unknown_postback_not_dropped:
  "map_of [(''U2'', \<lparr>display_name = ''Bo'', last_record_id = None\<rparr>)] ''U1'' = None \<and>
   handle_postback3 ''U1'' ''tok'' ''Service Feedback: 4  ( id : 123''
     \<lparr>user_cache = [(''U2'', \<lparr>display_name = ''Bo'', last_record_id = None\<rparr>)],
      users = [(''U2'', ''Bo'', None)], outbox = []\<rparr> =
   \<lparr>user_cache = [(''U2'', \<lparr>display_name = ''Bo'', last_record_id = None\<rparr>)],
    users = [(''U2'', ''Bo'', None)],
    outbox = [Forward ''U1'' None 4 (Some 123) ''-'' ''service'',
              Reply ''tok'' ''Thanks for your feedback: 4/5!'']\<rparr>"
  by (simp add: handle_postback3_def payload_lower payload_match
      payload_service payload_numbers match_group_def get_display_name_def
      send_to_powerapp_def reply_message_def update_last_record_id_def
      set_last_record_id_def Let_def)

subsection \<open>The first message of a new user\<close>

text \<open>
  Claim C4. When the user id is neither a key of the dictionary nor in the table
  (so the lookup misses, with or without the reload), the text-message handler
  appends one row with that id, the fetched display name and no last record id,
  which is then the only row with that id; it makes exactly one call, the
  forward with feedback 0, record id 0, empty text and empty list type, and so
  sends no reply. \<^verbatim>\<open>line_bot7\<close> does the same.
\<close>

theorem first_message_bootstrap:
  assumes "uid \<notin> set (map fst (user_cache w))" and "uid \<notin> set (map fst (users w))"
  shows "users (handle_message3 get_profile uid reply_token msg w) =
           users w @ [(uid, get_profile uid, None)] \<and>
         rows_of uid (handle_message3 get_profile uid reply_token msg w) =
           [(uid, get_profile uid, None)] \<and>
         outbox (handle_message3 get_profile uid reply_token msg w) =
           outbox w @ [Forward uid (Some (get_profile uid)) 0 (Some 0) [] []] \<and>
         replies (handle_message3 get_profile uid reply_token msg w) = replies w \<and>
         handle_message7 get_profile uid reply_token msg w =
           handle_message3 get_profile uid reply_token msg w"
proof -
  let ?w1 = "if user_cache w = [] then load_cache_from_db w else w"
  have miss: "get_display_name ?w1 uid = None"
    using assms by (rule miss_after_reload)
  have h: "handle_message3 get_profile uid reply_token msg w = new_user get_profile uid ?w1"
    using miss by (simp add: handle_message3_def Let_def)
  have h7: "handle_message7 get_profile uid reply_token msg w = new_user get_profile uid ?w1"
    using miss by (simp add: handle_message7_def Let_def)
  have u: "users ?w1 = users w" and ob: "outbox ?w1 = outbox w"
    by (simp_all add: load_cache_from_db_frame)
  have us: "users (new_user get_profile uid ?w1) = users w @ [(uid, get_profile uid, None)]"
    using assms(2) u
    by (simp add: new_user_def Let_def send_to_powerapp_def add_user_def insert_or_ignore_def)
  have out: "outbox (new_user get_profile uid ?w1) =
      outbox w @ [Forward uid (Some (get_profile uid)) 0 (Some 0) [] []]"
    using ob by (simp add: new_user_def Let_def send_to_powerapp_def add_user_def)
  show ?thesis
    unfolding h7 unfolding h
    using assms(2) by (simp add: us out rows_of_def replies_def filter_absent_key)
qed

theorem first_message_bootstrap_witness:
  "handle_message3 (\<lambda>u. ''Al'') ''U1'' ''tok'' ''hi''
     \<lparr>user_cache = [], users = [(''U2'', ''Cy'', Some 5)], outbox = []\<rparr> =
   \<lparr>user_cache = [(''U2'', \<lparr>display_name = ''Cy'', last_record_id = Some 5\<rparr>),
                   (''U1'', \<lparr>display_name = ''Al'', last_record_id = None\<rparr>)],
    users = [(''U2'', ''Cy'', Some 5), (''U1'', ''Al'', None)],
    outbox = [Forward ''U1'' (Some ''Al'') 0 (Some 0) [] []]\<rparr>"
  using first_message_bootstrap [of "''U1''"
      "\<lparr>user_cache = [], users = [(''U2'', ''Cy'', Some 5)], outbox = []\<rparr>"
      "\<lambda>u. ''Al''" "''tok''" "''hi''"]
  by (simp add: handle_message3_def load_cache_from_db_def get_display_name_def new_user_def
      add_user_def insert_or_ignore_def send_to_powerapp_def Let_def)

subsection \<open>Creating a user twice\<close>

text \<open>
  Claim C5. \<^verbatim>\<open>add_user\<close> is idempotent on the table: a second call for the same
  user id, whatever display name it passes, leaves the table as the first call
  left it. The table then holds for that id the rows it held before the first
  call, or, when it held none, exactly one row with the first call's display
  name and no last record id. The model of \<^verbatim>\<open>INSERT OR IGNORE\<close> has no error
  branch: a duplicate is skipped.
\<close>

theorem add_user_idempotent_on_store:
  "users (add_user uid dn2 (add_user uid dn1 w)) = users (add_user uid dn1 w) \<and>
   rows_of uid (add_user uid dn2 (add_user uid dn1 w)) =
     (if uid \<in> set (map fst (users w)) then rows_of uid w else [(uid, dn1, None)])"
  by (simp add: add_user_def insert_or_ignore_def rows_of_def filter_absent_key)

theorem add_user_idempotent_on_store_witness:
  "users (add_user ''U1'' ''Bob'' (add_user ''U1'' ''Al''
      \<lparr>user_cache = [], users = [(''U2'', ''Cy'', Some 5)], outbox = []\<rparr>)) =
     [(''U2'', ''Cy'', Some 5), (''U1'', ''Al'', None)] \<and>
   rows_of ''U1'' (add_user ''U1'' ''Bob'' (add_user ''U1'' ''Al''
      \<lparr>user_cache = [], users = [(''U2'', ''Cy'', Some 5)], outbox = []\<rparr>)) =
     [(''U1'', ''Al'', None)]"
  using add_user_idempotent_on_store [of "''U1''" "''Bob''" "''Al''"
      "\<lparr>user_cache = [], users = [(''U2'', ''Cy'', Some 5)], outbox = []\<rparr>"]
  by (simp add: add_user_def insert_or_ignore_def)

subsection \<open>The postback example\<close>

text \<open>
  Claim C6. The payload \<^verbatim>\<open>Service Feedback: 4  ( id : 123\<close>, lower-cased, matches
  the postback pattern with groups \<^verbatim>\<open>feedback\<close>, \<^verbatim>\<open>4\<close> and \<^verbatim>\<open>123\<close>. For a user
  the dictionary holds, \<^verbatim>\<open>line_bot3\<close> forwards feedback 4, record id 123, text
  \<^verbatim>\<open>-\<close> and list type \<^verbatim>\<open>service\<close>, replies with the score out of 5, and
  updates the last record id, which then reads 123. \<^verbatim>\<open>line_bot7\<close> ends with the
  same dictionary and table and makes the same two calls, the reply first.
\<close>

theorem postback_example:
  assumes "map_of (user_cache w) uid = Some e"
  shows "re_search postback_pattern (lower ''Service Feedback: 4  ( id : 123'') =
           Some [''feedback'', ''4'', ''123''] \<and>
         handle_postback3 uid reply_token ''Service Feedback: 4  ( id : 123'' w =
           update_last_record_id uid 123
             (w\<lparr>outbox := outbox w @
                  [Forward uid (Some (display_name e)) 4 (Some 123) ''-'' ''service'',
                   Reply reply_token ''Thanks for your feedback: 4/5!'']\<rparr>) \<and>
         get_last_record_id
           (handle_postback3 uid reply_token ''Service Feedback: 4  ( id : 123'' w) uid = Some 123 \<and>
         user_cache (handle_postback7 uid reply_token ''Service Feedback: 4  ( id : 123'' w) =
           user_cache (handle_postback3 uid reply_token ''Service Feedback: 4  ( id : 123'' w) \<and>
         users (handle_postback7 uid reply_token ''Service Feedback: 4  ( id : 123'' w) =
           users (handle_postback3 uid reply_token ''Service Feedback: 4  ( id : 123'' w) \<and>
         outbox (handle_postback7 uid reply_token ''Service Feedback: 4  ( id : 123'' w) =
           outbox w @
             [Reply reply_token ''Thanks for your feedback: 4/5!'',
              Forward uid (Some (display_name e)) 4 (Some 123) ''-'' ''service'']"
proof -
  have dn: "get_display_name w uid = Some (display_name e)"
    using assms by (simp add: get_display_name_def)
  have h3: "handle_postback3 uid reply_token ''Service Feedback: 4  ( id : 123'' w =
      update_last_record_id uid 123
        (w\<lparr>outbox := outbox w @
             [Forward uid (Some (display_name e)) 4 (Some 123) ''-'' ''service'',
              Reply reply_token ''Thanks for your feedback: 4/5!'']\<rparr>)"
    unfolding handle_postback3_def
    by (simp add: payload_lower payload_match payload_service payload_numbers dn match_group_def
        send_to_powerapp_def reply_message_def Let_def)
  have h7: "handle_postback7 uid reply_token ''Service Feedback: 4  ( id : 123'' w =
      send_to_powerapp uid (Some (display_name e)) 4 (Some 123) ''-'' ''service''
        (update_last_record_id uid 123
          (w\<lparr>outbox := outbox w @ [Reply reply_token ''Thanks for your feedback: 4/5!'']\<rparr>))"
    unfolding handle_postback7_def
    by (simp add: payload_lower payload_match payload_service payload_numbers dn match_group_def
        reply_message_def Let_def)
  have g: "get_last_record_id
      (update_last_record_id uid 123
        (w\<lparr>outbox := outbox w @
             [Forward uid (Some (display_name e)) 4 (Some 123) ''-'' ''service'',
              Reply reply_token ''Thanks for your feedback: 4/5!'']\<rparr>)) uid = Some 123"
    by (rule update_last_record_id_known [of _ _ e]) (simp add: assms)
  show ?thesis
    unfolding h7 unfolding h3
    using g by (simp add: payload_lower payload_match update_last_record_id_def send_to_powerapp_def)
qed

theorem postback_example_witness:
  "handle_postback3 ''U1'' ''tok'' ''Service Feedback: 4  ( id : 123''
     \<lparr>user_cache = [(''U1'', \<lparr>display_name = ''Al'', last_record_id = None\<rparr>)],
      users = [(''U1'', ''Al'', None)], outbox = []\<rparr> =
   \<lparr>user_cache = [(''U1'', \<lparr>display_name = ''Al'', last_record_id = Some 123\<rparr>)],
    users = [(''U1'', ''Al'', Some 123)],
    outbox = [Forward ''U1'' (Some ''Al'') 4 (Some 123) ''-'' ''service'',
              Reply ''tok'' ''Thanks for your feedback: 4/5!'']\<rparr>"
  using postback_example [of
      "\<lparr>user_cache = [(''U1'', \<lparr>display_name = ''Al'', last_record_id = None\<rparr>)],
        users = [(''U1'', ''Al'', None)], outbox = []\<rparr>"
      "''U1''" "\<lparr>display_name = ''Al'', last_record_id = None\<rparr>" "''tok''"]
  by (simp add: update_last_record_id_def set_last_record_id_def)

subsection \<open>The text feedback example\<close>

lemma text_not_hello: "lower ''Service Feedback : great service'' \<noteq> ''hello''"
  by code_simp

lemma text_prefix: "contains ''Service Feedback :'' ''Service Feedback : great service''"
  by code_simp

lemma text_service: "contains ''Service'' ''Service Feedback :''"
  by code_simp

lemma text_match:
  "re_search feedback_text_pattern ''Service Feedback : great service'' = Some [''great service'']"
  by code_simp

text \<open>
  Claim C7. For a known user whose cached last record id is 123, the message
  \<^verbatim>\<open>Service Feedback : great service\<close> makes \<^verbatim>\<open>line_bot3\<close> forward once, with
  feedback 0, record id 123, the text \<^verbatim>\<open>great service\<close> (what follows the first
  colon, after the whitespace the pattern skips) and list type \<^verbatim>\<open>service\<close>, and
  then send the thanks reply; nothing else changes.
\<close>

theorem text_feedback_example:
  assumes "map_of (user_cache w) uid = Some e" and "display_name e \<noteq> []"
    and "last_record_id e = Some 123"
  shows "handle_message3 get_profile uid reply_token ''Service Feedback : great service'' w =
           w\<lparr>outbox := outbox w @
               [Forward uid (Some (display_name e)) 0 (Some 123) ''great service'' ''service'',
                Reply reply_token ''Thanks for your feedback!'']\<rparr>"
proof -
  have ne: "user_cache w \<noteq> []" using assms(1) by (rule known_cache_nonempty)
  have dn: "get_display_name w uid = Some (display_name e)"
    using assms(1) by (simp add: get_display_name_def)
  have lr: "get_last_record_id w uid = Some 123"
    using assms(1,3) by (simp add: get_last_record_id_def)
  show ?thesis
    unfolding handle_message3_def
    using ne dn lr assms(2)
    by (simp add: text_not_hello text_prefix text_service text_match match_group_def
        send_to_powerapp_def reply_message_def Let_def)
qed

theorem text_feedback_example_witness:
  "handle_message3 (\<lambda>u. ''Zed'') ''U1'' ''tok'' ''Service Feedback : great service''
     \<lparr>user_cache = [(''U1'', \<lparr>display_name = ''Al'', last_record_id = Some 123\<rparr>)],
      users = [(''U1'', ''Al'', Some 123)], outbox = []\<rparr> =
   \<lparr>user_cache = [(''U1'', \<lparr>display_name = ''Al'', last_record_id = Some 123\<rparr>)],
    users = [(''U1'', ''Al'', Some 123)],
    outbox = [Forward ''U1'' (Some ''Al'') 0 (Some 123) ''great service'' ''service'',
              Reply ''tok'' ''Thanks for your feedback!'']\<rparr>"
  using text_feedback_example [of
      "\<lparr>user_cache = [(''U1'', \<lparr>display_name = ''Al'', last_record_id = Some 123\<rparr>)],
        users = [(''U1'', ''Al'', Some 123)], outbox = []\<rparr>"
      "''U1''" "\<lparr>display_name = ''Al'', last_record_id = Some 123\<rparr>" "\<lambda>u. ''Zed''" "''tok''"]
  by simp

subsection \<open>The greeting\<close>

lemma lower_HeLLo: "lower ''HeLLo'' = ''hello''"
  by code_simp

text \<open>
  Claim C8. For a known user (a dictionary entry with a non-empty display name),
  a text message that lower-cases to \<^verbatim>\<open>hello\<close> makes both files' handlers send
  one reply, the greeting with the stored display name, and nothing else: the
  dictionary and the table are unchanged and no forward call is made.
\<close>

theorem hello_changes_nothing:
  assumes "map_of (user_cache w) uid = Some e" and "display_name e \<noteq> []"
    and "lower msg = ''hello''"
  shows "handle_message3 get_profile uid reply_token msg w =
           w\<lparr>outbox := outbox w @ [Reply reply_token (''Hello '' @ display_name e @ ''!'')]\<rparr> \<and>
         handle_message7 get_profile uid reply_token msg w =
           w\<lparr>outbox := outbox w @ [Reply reply_token (''Hello '' @ display_name e @ ''!'')]\<rparr>"
proof -
  have ne: "user_cache w \<noteq> []" using assms(1) by (rule known_cache_nonempty)
  have dn: "get_display_name w uid = Some (display_name e)"
    using assms(1) by (simp add: get_display_name_def)
  show ?thesis
    using ne dn assms(2,3)
    by (simp add: handle_message3_def handle_message7_def reply_message_def)
qed

theorem hello_changes_nothing_witness:
  "handle_message3 (\<lambda>u. ''Zed'') ''U1'' ''tok'' ''HeLLo''
     \<lparr>user_cache = [(''U1'', \<lparr>display_name = ''Al'', last_record_id = Some 7\<rparr>)],
      users = [(''U1'', ''Al'', Some 7)], outbox = []\<rparr> =
   \<lparr>user_cache = [(''U1'', \<lparr>display_name = ''Al'', last_record_id = Some 7\<rparr>)],
    users = [(''U1'', ''Al'', Some 7)], outbox = [Reply ''tok'' ''Hello Al!'']\<rparr>"
  using hello_changes_nothing [of
      "\<lparr>user_cache = [(''U1'', \<lparr>display_name = ''Al'', last_record_id = Some 7\<rparr>)],
        users = [(''U1'', ''Al'', Some 7)], outbox = []\<rparr>"
      "''U1''" "\<lparr>display_name = ''Al'', last_record_id = Some 7\<rparr>" "''HeLLo''"
      "\<lambda>u. ''Zed''" "''tok''"]
  by (simp add: lower_HeLLo)

subsection \<open>The two files compared\<close>

lemma outbox_same [simp]:
  "forwards (send_to_powerapp uid dn f r t l w) = forwards w @ [Forward uid dn f r t l]"
  "replies (send_to_powerapp uid dn f r t l w) = replies w"
  "forwards (reply_message tok txt w) = forwards w"
  "replies (reply_message tok txt w) = replies w @ [Reply tok txt]"
  "user_cache (send_to_powerapp uid dn f r t l w) = user_cache w"
  "users (send_to_powerapp uid dn f r t l w) = users w"
  "user_cache (reply_message tok txt w) = user_cache w"
  "users (reply_message tok txt w) = users w"
  by (simp_all add: forwards_def replies_def send_to_powerapp_def reply_message_def)

lemma update_last_record_id_same:
  "same_behaviour a b \<Longrightarrow>
     same_behaviour (update_last_record_id uid rid a) (update_last_record_id uid rid b)"
  by (simp add: same_behaviour_def update_last_record_id_def forwards_def replies_def)

lemma update_last_record_id_outbox [simp]:
  "forwards (update_last_record_id uid rid w) = forwards w"
  "replies (update_last_record_id uid rid w) = replies w"
  by (simp_all add: update_last_record_id_def forwards_def replies_def)

lemma feedback_loop_same:
  "same_behaviour a b \<Longrightarrow>
     same_behaviour (feedback_loop3 ps uid tok dn msg a) (feedback_loop7 ps uid tok dn msg b)"
  by (induction ps) (auto simp: same_behaviour_def Let_def get_last_record_id_def split: option.splits)

lemma load_cache_same:
  "same_behaviour a b \<Longrightarrow> same_behaviour (load_cache_from_db a) (load_cache_from_db b)"
  by (simp add: same_behaviour_def load_cache_from_db_def forwards_def replies_def)

lemma new_user_same:
  "same_behaviour a b \<Longrightarrow> same_behaviour (new_user gp uid a) (new_user gp uid b)"
  by (simp add: same_behaviour_def new_user_def Let_def add_user_def forwards_def replies_def
      send_to_powerapp_def)

lemma handle_message_same:
  assumes "same_behaviour a b"
  shows "same_behaviour (handle_message3 gp uid tok msg a) (handle_message7 gp uid tok msg b)"
proof -
  define a1 where "a1 = (if user_cache a = [] then load_cache_from_db a else a)"
  define b1 where "b1 = (if user_cache b = [] then load_cache_from_db b else b)"
  have s1: "same_behaviour a1 b1"
    unfolding a1_def b1_def
    using assms load_cache_same [OF assms] by (simp add: same_behaviour_def)
  then have dn: "get_display_name a1 uid = get_display_name b1 uid"
    by (simp add: same_behaviour_def get_display_name_def)
  have ha: "handle_message3 gp uid tok msg a =
      (case get_display_name a1 uid of
         None \<Rightarrow> new_user gp uid a1
       | Some dn \<Rightarrow>
           if dn = [] then new_user gp uid a1
           else if lower msg = ''hello'' then reply_message tok (''Hello '' @ dn @ ''!'') a1
           else feedback_loop3 [''Service Feedback :'', ''Action Feedback :''] uid tok dn msg a1)"
    unfolding handle_message3_def Let_def a1_def ..
  have hb: "handle_message7 gp uid tok msg b =
      (case get_display_name b1 uid of
         None \<Rightarrow> new_user gp uid b1
       | Some dn \<Rightarrow>
           if dn = [] then new_user gp uid b1
           else if lower msg = ''hello'' then reply_message tok (''Hello '' @ dn @ ''!'') b1
           else feedback_loop7 [''Service Feedback :'', ''Action Feedback :''] uid tok dn msg b1)"
    unfolding handle_message7_def Let_def b1_def ..
  have hello: "same_behaviour (reply_message tok t a1) (reply_message tok t b1)" for t
    using s1 by (simp add: same_behaviour_def)
  show ?thesis
  proof (cases "get_display_name b1 uid")
    case None
    then show ?thesis
      unfolding ha hb dn using new_user_same [OF s1] by simp
  next
    case (Some d)
    then show ?thesis
      unfolding ha hb dn
      using new_user_same [OF s1] feedback_loop_same [OF s1] hello
      by (simp del: feedback_loop3.simps feedback_loop7.simps)
  qed
qed

lemma handle_postback_same:
  assumes "same_behaviour a b"
  shows "same_behaviour (handle_postback3 uid tok d a) (handle_postback7 uid tok d b)"
proof -
  have dn: "get_display_name a uid = get_display_name b uid"
    using assms by (simp add: same_behaviour_def get_display_name_def)
  show ?thesis
    unfolding handle_postback3_def handle_postback7_def Let_def dn
    using assms
    by (simp add: same_behaviour_def update_last_record_id_def send_to_powerapp_def
        reply_message_def forwards_def replies_def split: option.splits)
qed

lemma dispatch_same:
  "same_behaviour a b \<Longrightarrow> same_behaviour (dispatch3 gp ev a) (dispatch7 gp ev b)"
  by (cases ev) (simp_all add: handle_message_same handle_postback_same)

lemma batch_same:
  "same_behaviour a b \<Longrightarrow>
     same_behaviour (fold (dispatch3 gp) evs a) (fold (dispatch7 gp) evs b)"
  by (induction evs arbitrary: a b) (simp_all add: dispatch_same)

lemma webhook_same_when_verified:
  assumes "signature_valid req"
  shows "fst (webhook3 gp req w) = Returned ''OK'' \<and> fst (webhook7 gp req w) = Returned ''OK'' \<and>
         same_behaviour (snd (webhook3 gp req w)) (snd (webhook7 gp req w))"
proof -
  have "same_behaviour w w" by (simp add: same_behaviour_def)
  then have "same_behaviour (fold (dispatch3 gp) (events req) w) (fold (dispatch7 gp) (events req) w)"
    by (rule batch_same)
  then show ?thesis using assms by (simp add: webhook3_def webhook7_def handle_def)
qed

text \<open>
  Claim C9. On a request whose signature verifies, the two files acknowledge
  alike and end in states with the same dictionary, table, forward calls and
  replies (\<open>webhook_same_when_verified\<close>). On a signature failure they differ:
  \<^verbatim>\<open>line_bot3.webhook\<close> has no \<^verbatim>\<open>try\<close> around \<^verbatim>\<open>handler.handle\<close>, so
  \<^verbatim>\<open>InvalidSignatureError\<close> escapes the view, while \<^verbatim>\<open>line_bot7.webhook\<close>
  catches it and aborts with status 400.
\<close>

theorem webhook_signature_failure:
  "webhook3 get_profile \<lparr>signature_valid = False, events = evs\<rparr> w =
     (Raised InvalidSignatureError, w) \<and>
   webhook7 get_profile \<lparr>signature_valid = False, events = evs\<rparr> w = (Aborted 400, w)"
  by (simp add: webhook3_def webhook7_def handle_def)

subsection \<open>A second bootstrap of a stored user\<close>

text \<open>
  Claim C10. When \<^verbatim>\<open>add_user\<close> runs for a user id that the dictionary and the
  table already hold, the dictionary entry is replaced by one with the new
  display name and no last record id, while the table is left as it was, so the
  row keeps its display name and its last record id. The text-message handler
  does exactly this when the cached display name is the empty string.
\<close>

theorem duplicate_bootstrap_resets_cache:
  assumes "map_of (user_cache w) uid = Some e" and "uid \<in> set (map fst (users w))"
  shows "map_of (user_cache (add_user uid dn w)) uid =
           Some \<lparr>display_name = dn, last_record_id = None\<rparr> \<and>
         get_last_record_id (add_user uid dn w) uid = None \<and>
         users (add_user uid dn w) = users w \<and>
         (display_name e = [] \<longrightarrow>
            handle_message3 get_profile uid reply_token msg w =
              send_to_powerapp uid (Some (get_profile uid)) 0 (Some 0) [] []
                (add_user uid (get_profile uid) w))"
proof -
  have ne: "user_cache w \<noteq> []" using assms(1) by (rule known_cache_nonempty)
  have dn: "get_display_name w uid = Some (display_name e)"
    using assms(1) by (simp add: get_display_name_def)
  have a: "map_of (user_cache (add_user uid dn w)) uid =
      Some \<lparr>display_name = dn, last_record_id = None\<rparr>"
    by (simp add: add_user_def update_conv')
  have b: "users (add_user uid dn w) = users w"
    using assms(2) by (simp add: add_user_def insert_or_ignore_def)
  have c: "display_name e = [] \<longrightarrow>
      handle_message3 get_profile uid reply_token msg w =
        send_to_powerapp uid (Some (get_profile uid)) 0 (Some 0) [] []
          (add_user uid (get_profile uid) w)"
    using ne dn by (simp add: handle_message3_def new_user_def Let_def)
  show ?thesis using a b c by (simp add: get_last_record_id_def)
qed

theorem duplicate_bootstrap_resets_cache_witness:
  "handle_message3 (\<lambda>u. ''Bob'') ''U1'' ''tok'' ''hi''
     \<lparr>user_cache = [(''U1'', \<lparr>display_name = [], last_record_id = Some 123\<rparr>)],
      users = [(''U1'', [], Some 123)], outbox = []\<rparr> =
   \<lparr>user_cache = [(''U1'', \<lparr>display_name = ''Bob'', last_record_id = None\<rparr>)],
    users = [(''U1'', [], Some 123)],
    outbox = [Forward ''U1'' (Some ''Bob'') 0 (Some 0) [] []]\<rparr> \<and>
   get_last_record_id (add_user ''U1'' ''Bob''
     \<lparr>user_cache = [(''U1'', \<lparr>display_name = [], last_record_id = Some 123\<rparr>)],
      users = [(''U1'', [], Some 123)], outbox = []\<rparr>) ''U1'' = None"
  using duplicate_bootstrap_resets_cache [of
      "\<lparr>user_cache = [(''U1'', \<lparr>display_name = [], last_record_id = Some 123\<rparr>)],
        users = [(''U1'', [], Some 123)], outbox = []\<rparr>"
      "''U1''" "\<lparr>display_name = [], last_record_id = Some 123\<rparr>" "''Bob''"
      "\<lambda>u. ''Bob''" "''tok''" "''hi''"]
  by (simp add: add_user_def insert_or_ignore_def send_to_powerapp_def Let_def)

end
